theory Spec2Isabelle
  imports Complex_Main
begin

section \<open>Python strings\<close>

text \<open>
  A Python \<open>str\<close> is modelled as a \<open>string\<close>, one \<open>char\<close> per code point. The case
  mappings below are Python's on ASCII text, which is what the address records hold; a
  letter outside ASCII is left as it is by the model.
\<close>

definition ascii_lowercase :: string where
  "ascii_lowercase = ''abcdefghijklmnopqrstuvwxyz''"

definition ascii_uppercase :: string where
  "ascii_uppercase = ''ABCDEFGHIJKLMNOPQRSTUVWXYZ''"

definition ascii_digits :: string where
  "ascii_digits = ''0123456789''"

definition is_lower :: "char \<Rightarrow> bool" where
  "is_lower c = (c \<in> set ascii_lowercase)"

definition is_upper :: "char \<Rightarrow> bool" where
  "is_upper c = (c \<in> set ascii_uppercase)"

definition is_digit :: "char \<Rightarrow> bool" where
  "is_digit c = (c \<in> set ascii_digits)"

definition is_alpha :: "char \<Rightarrow> bool" where
  "is_alpha c = (is_upper c \<or> is_lower c)"

text \<open>
  \<open>str.isspace\<close>, which \<open>str.strip()\<close>, \<open>str.split()\<close> and the regular expression
  class \<open>\s\<close> share: tab to carriage return, the four separators 0x1C to 0x1F, the
  space, and in the Latin-1 range NEL and the no-break space.
\<close>

definition py_isspace :: "char \<Rightarrow> bool" where
  "py_isspace c = (c \<in> set [CHR 0x09, CHR 0x0A, CHR 0x0B, CHR 0x0C, CHR 0x0D,
                             CHR 0x1C, CHR 0x1D, CHR 0x1E, CHR 0x1F, CHR '' '',
                             CHR 0x85, CHR 0xA0])"

definition to_upper :: "char \<Rightarrow> char" where
  "to_upper c = (case map_of (zip ascii_lowercase ascii_uppercase) c of
                   Some u \<Rightarrow> u | None \<Rightarrow> c)"

definition to_lower :: "char \<Rightarrow> char" where
  "to_lower c = (case map_of (zip ascii_uppercase ascii_lowercase) c of
                   Some l \<Rightarrow> l | None \<Rightarrow> c)"

definition py_upper :: "string \<Rightarrow> string" where
  "py_upper s = map to_upper s"

definition py_lower :: "string \<Rightarrow> string" where
  "py_lower s = map to_lower s"

text \<open>
  \<open>str.title()\<close>: a cased character is upper-cased when the character before it is not
  cased (or there is none), and lower-cased otherwise; the flag is whether the previous
  character was cased.
\<close>

fun title_from :: "bool \<Rightarrow> string \<Rightarrow> string" where
  "title_from prev [] = []"
| "title_from prev (c # cs) =
     (if is_lower c then (if prev then c else to_upper c) # title_from True cs
      else if is_upper c then (if prev then to_lower c else c) # title_from True cs
      else c # title_from False cs)"

definition py_title :: "string \<Rightarrow> string" where
  "py_title s = title_from False s"

text \<open>\<open>str.isdigit()\<close>: not empty and every character a digit.\<close>

definition py_isdigit :: "string \<Rightarrow> bool" where
  "py_isdigit s = (s \<noteq> [] \<and> list_all is_digit s)"

definition py_strip :: "string \<Rightarrow> string" where
  "py_strip s = rev (dropWhile py_isspace (rev (dropWhile py_isspace s)))"

text \<open>
  \<open>str.split()\<close> without argument: one scan that cuts at every run of whitespace and
  yields no empty token. \<open>cur\<close> is the token being read.
\<close>

fun split_from :: "string \<Rightarrow> string \<Rightarrow> string list" where
  "split_from cur [] = (if cur = [] then [] else [cur])"
| "split_from cur (c # cs) =
     (if py_isspace c then (if cur = [] then split_from [] cs else cur # split_from [] cs)
      else split_from (cur @ [c]) cs)"

definition py_split :: "string \<Rightarrow> string list" where
  "py_split s = split_from [] s"

text \<open>\<open>' '.join(parts)\<close>.\<close>

fun py_join :: "string list \<Rightarrow> string" where
  "py_join [] = []"
| "py_join [p] = p"
| "py_join (p # q # ps) = p @ '' '' @ py_join (q # ps)"

section \<open>address\_normalizer: the tables\<close>

definition NUMBERED_STREETS :: "(string \<times> string) list" where
  "NUMBERED_STREETS =
    [(''1ST'', ''FIRST''), (''FIRST'', ''1ST''),
     (''2ND'', ''SECOND''), (''SECOND'', ''2ND''),
     (''3RD'', ''THIRD''), (''THIRD'', ''3RD''),
     (''4TH'', ''FOURTH''), (''FOURTH'', ''4TH''),
     (''5TH'', ''FIFTH''), (''FIFTH'', ''5TH''),
     (''6TH'', ''SIXTH''), (''SIXTH'', ''6TH''),
     (''7TH'', ''SEVENTH''), (''SEVENTH'', ''7TH''),
     (''8TH'', ''EIGHTH''), (''EIGHTH'', ''8TH''),
     (''9TH'', ''NINTH''), (''NINTH'', ''9TH''),
     (''10TH'', ''TENTH''), (''TENTH'', ''10TH''),
     (''11TH'', ''ELEVENTH''), (''ELEVENTH'', ''11TH''),
     (''12TH'', ''TWELFTH''), (''TWELFTH'', ''12TH'')]"

definition STREET_TYPES :: "(string \<times> string list) list" where
  "STREET_TYPES =
    [(''ST'', [''ST'', ''STREET'', ''STR'']),
     (''AV'', [''AV'', ''AVE'', ''AVENUE'']),
     (''WY'', [''WY'', ''WAY'']),
     (''BL'', [''BL'', ''BLVD'', ''BOULEVARD'']),
     (''RD'', [''RD'', ''ROAD'']),
     (''DR'', [''DR'', ''DRIVE'']),
     (''LN'', [''LN'', ''LANE'']),
     (''PL'', [''PL'', ''PLACE'']),
     (''CT'', [''CT'', ''COURT'', ''CRT'']),
     (''CR'', [''CR'', ''CIR'', ''CIRCLE'']),
     (''TER'', [''TER'', ''TERR'', ''TERRACE'']),
     (''PK'', [''PK'', ''PARK'', ''PKWY'', ''PARKWAY'']),
     (''SQ'', [''SQ'', ''SQUARE'']),
     (''HWY'', [''HWY'', ''HIGHWAY''])]"

text \<open>
  The reverse index is filled by the module's two nested loops, a later assignment
  overwriting an earlier one.
\<close>

definition TYPE_TO_CANONICAL :: "string \<rightharpoonup> string" where
  "TYPE_TO_CANONICAL =
     fold (\<lambda>(canonical, variations) m. fold (\<lambda>var m'. m'(var \<mapsto> canonical)) variations m)
          STREET_TYPES Map.empty"

section \<open>address\_normalizer: parse\_address\<close>

record parsed_address =
  street_number :: string
  street_name :: string
  street_type :: string
  unit :: string
  original :: string

text \<open>
  The unit pattern \<open>(#|APT\.?|UNIT|STE\.?|SUITE)\s*([A-Z0-9-]+)\s*$\<close>, matched ignoring
  case. At one start position at most one marker fits, since the five begin differently;
  an optional period that is present has to be consumed, because neither \<open>\s\<close> nor the
  token class accepts a period. The token class and \<open>\s\<close> are disjoint, so the token
  is the maximal run of token characters and only whitespace may follow it up to the end.
  \<open>unit_marker\<close> gives the text after the marker.
\<close>

definition starts_with_ci :: "string \<Rightarrow> string \<Rightarrow> bool" where
  "starts_with_ci pat s = (length pat \<le> length s \<and> py_upper (take (length pat) s) = pat)"

definition opt_period :: "string \<Rightarrow> string" where
  "opt_period r = (case r of [] \<Rightarrow> r | c # r' \<Rightarrow> if c = CHR ''.'' then r' else r)"

definition unit_marker :: "string \<Rightarrow> string option" where
  "unit_marker s =
     (if starts_with_ci ''#'' s then Some (drop 1 s)
      else if starts_with_ci ''APT'' s then Some (opt_period (drop 3 s))
      else if starts_with_ci ''UNIT'' s then Some (drop 4 s)
      else if starts_with_ci ''STE'' s then Some (opt_period (drop 3 s))
      else if starts_with_ci ''SUITE'' s then Some (drop 5 s)
      else None)"

definition is_unit_char :: "char \<Rightarrow> bool" where
  "is_unit_char c = (is_upper c \<or> is_lower c \<or> is_digit c \<or> c = CHR ''-'')"

definition unit_match_here :: "string \<Rightarrow> string option" where
  "unit_match_here s =
     (case unit_marker s of
        None \<Rightarrow> None
      | Some r \<Rightarrow>
          (let r' = dropWhile py_isspace r;
               tok = takeWhile is_unit_char r';
               rest = dropWhile is_unit_char r'
           in if tok \<noteq> [] \<and> list_all py_isspace rest then Some tok else None))"

text \<open>
  \<open>re.search\<close> takes the leftmost start position at which the pattern matches; the
  result is that position and group 2.
\<close>

fun unit_search_from :: "nat \<Rightarrow> string \<Rightarrow> (nat \<times> string) option" where
  "unit_search_from i [] = None"
| "unit_search_from i (c # cs) =
     (case unit_match_here (c # cs) of
        Some u \<Rightarrow> Some (i, u)
      | None \<Rightarrow> unit_search_from (Suc i) cs)"

definition unit_search :: "string \<Rightarrow> (nat \<times> string) option" where
  "unit_search s = unit_search_from 0 s"

text \<open>
  The street number test \<open>parts[0].isdigit() or re.match(r'^\d+[A-Z]?$', parts[0],
  re.IGNORECASE)\<close>. Its argument is a token of \<open>split()\<close>, which holds no newline, so
  \<open>$\<close> is the end of the token.
\<close>

definition is_street_number :: "string \<Rightarrow> bool" where
  "is_street_number t =
     (py_isdigit t \<or>
      (let ds = takeWhile is_digit t; r = dropWhile is_digit t
       in ds \<noteq> [] \<and> (r = [] \<or> (length r = 1 \<and> is_alpha (hd r)))))"

text \<open>
  Each subscript of the source (\<open>parts[0]\<close>, \<open>parts[-1]\<close>) stands behind an
  \<open>if not parts: return result\<close>; the model has the same guards, so \<open>hd\<close> and \<open>last\<close>
  are only applied to non-empty lists.
\<close>

definition parse_address :: "string \<Rightarrow> parsed_address" where
  "parse_address address =
     (let result = \<lparr>street_number = [], street_name = [], street_type = [], unit = [],
                    original = address\<rparr>
      in if address = [] then result
         else
           let addr = py_strip address;
               unit_match = unit_search addr;
               result = (case unit_match of None \<Rightarrow> result
                         | Some (start, grp) \<Rightarrow> result\<lparr>unit := grp\<rparr>);
               addr = (case unit_match of None \<Rightarrow> addr
                       | Some (start, grp) \<Rightarrow> py_strip (take start addr));
               parts = py_split addr
           in if parts = [] then result
              else
                let is_num = is_street_number (hd parts);
                    result = (if is_num then result\<lparr>street_number := hd parts\<rparr> else result);
                    parts = (if is_num then tl parts else parts)
                in if parts = [] then result
                   else
                     let lst = py_upper (last parts);
                         is_type = (lst \<in> dom TYPE_TO_CANONICAL);
                         result = (if is_type then result\<lparr>street_type := last parts\<rparr>
                                   else result);
                         parts = (if is_type then butlast parts else parts)
                     in result\<lparr>street_name := py_join parts\<rparr>)"

section \<open>address\_normalizer: the canonical forms\<close>

definition standardize_address :: "string \<Rightarrow> bool \<Rightarrow> string" where
  "standardize_address address uppercase =
     (let parsed = parse_address address;
          street_num = street_number parsed;
          street_nm = street_name parsed;
          street_tp = street_type parsed;
          type_upper = py_upper street_tp;
          canonical_type = (case TYPE_TO_CANONICAL type_upper of
                              Some c \<Rightarrow> c | None \<Rightarrow> type_upper);
          parts = (if street_num \<noteq> [] then [street_num] else [])
                @ (if street_nm \<noteq> [] then [if uppercase then py_upper street_nm else street_nm]
                   else [])
                @ (if canonical_type \<noteq> [] then [if uppercase then canonical_type else street_tp]
                   else [])
      in py_join parts)"

definition normalize_address :: "string \<Rightarrow> string" where
  "normalize_address address =
     (if address = [] then []
      else
        let parsed = parse_address address;
            street_num = street_number parsed;
            street_nm = py_upper (street_name parsed);
            street_tp = py_upper (street_type parsed);
            canonical_type = (case TYPE_TO_CANONICAL street_tp of
                                Some c \<Rightarrow> c | None \<Rightarrow> street_tp)
        in py_strip (street_num @ '' '' @ street_nm @ '' '' @ canonical_type))"

section \<open>address\_normalizer: the variations\<close>

text \<open>
  Both functions collect into a Python \<open>set\<close> and return it as a list in no specified
  order; the model returns the set.
\<close>

definition get_street_name_variations :: "string \<Rightarrow> string set" where
  "get_street_name_variations street_nm =
     (let name_upper = py_upper street_nm;
          variations = {name_upper, py_lower street_nm, py_title street_nm}
      in case map_of NUMBERED_STREETS name_upper of
           Some alternate \<Rightarrow>
             variations \<union> {alternate, py_lower alternate, py_title alternate}
         | None \<Rightarrow> variations)"

definition get_street_type_variations :: "string \<Rightarrow> string set" where
  "get_street_type_variations street_tp =
     (let type_upper = py_upper street_tp;
          canonical = (case TYPE_TO_CANONICAL type_upper of
                         Some c \<Rightarrow> c | None \<Rightarrow> type_upper)
      in case map_of STREET_TYPES canonical of
           Some vars \<Rightarrow> (\<Union>var \<in> set vars. {var, py_lower var, py_title var})
         | None \<Rightarrow> {type_upper, py_lower street_tp, py_title street_tp})"

definition generate_address_variations :: "string \<Rightarrow> string \<Rightarrow> string \<Rightarrow> string set" where
  "generate_address_variations street_num street_nm street_tp =
     (\<Union>name \<in> get_street_name_variations street_nm.
        \<Union>stype \<in> get_street_type_variations street_tp.
          {street_num @ '' '' @ name @ '' '' @ stype})"

section \<open>geocoder: the lookup format\<close>

text \<open>
  Python floats are modelled by the real numbers they denote: the module only compares
  coordinates and stores them, it computes nothing with them.
\<close>

record bounds =
  lat_min :: real
  lat_max :: real
  lon_min :: real
  lon_max :: real

definition BERKELEY_BOUNDS :: bounds where
  "BERKELEY_BOUNDS = \<lparr>lat_min = 37.84, lat_max = 37.91, lon_min = -122.32, lon_max = -122.23\<rparr>"

definition word_to_num :: "(string \<times> string) list" where
  "word_to_num =
    [(''FIRST'', ''1ST''), (''SECOND'', ''2ND''), (''THIRD'', ''3RD''),
     (''FOURTH'', ''4TH''), (''FIFTH'', ''5TH''), (''SIXTH'', ''6TH''),
     (''SEVENTH'', ''7TH''), (''EIGHTH'', ''8TH''), (''NINTH'', ''9TH''),
     (''TENTH'', ''10TH''), (''ELEVENTH'', ''11TH''), (''TWELFTH'', ''12TH'')]"

definition normalize_street_name :: "string \<Rightarrow> string" where
  "normalize_street_name name =
     (let name_upper = py_strip (py_upper name)
      in case map_of word_to_num name_upper of
           Some num \<Rightarrow> num
         | None \<Rightarrow> name_upper)"

text \<open>
  The ordinal pattern \<open>^(\d+)(ST|ND|RD|TH)$\<close>, matched with case: the digits, then one of
  the four suffixes, then the end. The result is the two groups. The argument is a
  stripped name, so \<open>$\<close> is the end of the string.
\<close>

definition ordinal_match :: "string \<Rightarrow> (string \<times> string) option" where
  "ordinal_match s =
     (let num = takeWhile is_digit s; suffix = dropWhile is_digit s
      in if num \<noteq> [] \<and> suffix \<in> set [''ST'', ''ND'', ''RD'', ''TH'']
         then Some (num, suffix) else None)"

definition type_map :: "(string \<times> string) list" where
  "type_map =
    [(''ST'', ''St''), (''AV'', ''Av''), (''AVE'', ''Av''), (''AVENUE'', ''Av''),
     (''WY'', ''Wy''), (''WAY'', ''Wy''),
     (''BL'', ''Bl''), (''BLVD'', ''Bl''), (''BOULEVARD'', ''Bl''),
     (''RD'', ''Rd''), (''ROAD'', ''Rd''),
     (''DR'', ''Dr''), (''DRIVE'', ''Dr''),
     (''PL'', ''Pl''), (''PLACE'', ''Pl''),
     (''CT'', ''Ct''), (''COURT'', ''Ct''),
     (''LN'', ''Ln''), (''LANE'', ''Ln''),
     (''SQ'', ''Sq''), (''SQUARE'', ''Sq''),
     (''TE'', ''Te''), (''TER'', ''Te''), (''TERRACE'', ''Te''),
     (''CI'', ''Ci''), (''CIR'', ''Ci''), (''CIRCLE'', ''Ci'')]"

text \<open>\<open>None\<close> is Python's \<open>None\<close>. The subscripts 0, 1, 2 stand behind the length test.\<close>

definition normalize_address_for_lookup :: "string \<Rightarrow> string option" where
  "normalize_address_for_lookup address =
     (let parts = py_split (py_strip address)
      in if length parts < 3 then None
         else
           let street_num = parts ! 0;
               street_nm = parts ! 1;
               street_tp = parts ! 2;
               normalized_name = normalize_street_name street_nm;
               normalized_name = (case ordinal_match normalized_name of
                                    Some (num, suffix) \<Rightarrow> num @ py_lower suffix
                                  | None \<Rightarrow> normalized_name);
               street_type_upper = py_upper street_tp;
               normalized_type = (case map_of type_map street_type_upper of
                                    Some t \<Rightarrow> t | None \<Rightarrow> py_title street_tp)
           in Some (street_num @ '' '' @ normalized_name @ '' '' @ normalized_type))"

section \<open>geocoder: the lookup table\<close>

text \<open>
  The lookup file is a CSV table; a row is its four cells, an empty \<open>APN\<close> cell being
  the one pandas reads as missing. The file and the console are the state the module
  acts on: \<open>io_trace\<close> records each read and write of the file and each line printed, in
  the order the code performs them.
\<close>

record lookup_row =
  original_address :: string
  latitude :: real
  longitude :: real
  APN :: string

record geocode_result =
  r_latitude :: real
  r_longitude :: real
  r_apn :: "string option"
  r_original_address :: string
  r_normalized_input :: string

datatype io_event = ReadCsv | WroteCsv | Printed string

record world =
  lookup_file :: "lookup_row list"
  io_trace :: "io_event list"

definition geocode_from_lookup :: "string \<Rightarrow> world \<Rightarrow> geocode_result option \<times> world" where
  "geocode_from_lookup address w =
     (case normalize_address_for_lookup address of
        None \<Rightarrow> (None, w)
      | Some normalized \<Rightarrow>
          if normalized = [] then (None, w)
          else
            let df_lookup = lookup_file w;
                w' = w\<lparr>io_trace := io_trace w @ [ReadCsv]\<rparr>;
                match = filter (\<lambda>row. original_address row = normalized) df_lookup
            in if length match > 0
               then (Some \<lparr>r_latitude = latitude (hd match),
                            r_longitude = longitude (hd match),
                            r_apn = (if APN (hd match) \<noteq> [] then Some (APN (hd match))
                                     else None),
                            r_original_address = original_address (hd match),
                            r_normalized_input = normalized\<rparr>, w')
               else (None, w'))"

definition validate_coordinates :: "real \<Rightarrow> real \<Rightarrow> string \<Rightarrow> bool" where
  "validate_coordinates lat lon city =
     (if city = ''Berkeley''
      then lat_min BERKELEY_BOUNDS \<le> lat \<and> lat \<le> lat_max BERKELEY_BOUNDS \<and>
           lon_min BERKELEY_BOUNDS \<le> lon \<and> lon \<le> lon_max BERKELEY_BOUNDS
      else False)"

definition validate_berkeley_coords :: "real \<Rightarrow> real \<Rightarrow> bool" where
  "validate_berkeley_coords lat lon = validate_coordinates lat lon ''Berkeley''"

text \<open>
  \<open>add_manual_geocode\<close> calls \<open>validate_coordinates\<close> with the default city. The
  parcel number is optional; \<open>None\<close> and the empty string both give an empty cell.
\<close>

definition add_manual_geocode ::
  "string \<Rightarrow> real \<Rightarrow> real \<Rightarrow> string option \<Rightarrow> world \<Rightarrow> bool \<times> world" where
  "add_manual_geocode address lat lon apn w =
     (if \<not> validate_coordinates lat lon ''Berkeley''
      then (False, w\<lparr>io_trace := io_trace w
                        @ [Printed ''WARNING: Coordinates outside Berkeley bounds'']\<rparr>)
      else
        let df_lookup = lookup_file w;
            normalized = normalize_address_for_lookup address;
            new_entry = \<lparr>original_address = (case normalized of
                                                 None \<Rightarrow> address
                                               | Some n \<Rightarrow> if n \<noteq> [] then n else address),
                         latitude = lat,
                         longitude = lon,
                         APN = (case apn of None \<Rightarrow> [] | Some a \<Rightarrow> a)\<rparr>;
            df_lookup = df_lookup @ [new_entry]
        in (True, \<lparr>lookup_file = df_lookup,
                   io_trace = io_trace w
                     @ [ReadCsv, WroteCsv,
                        Printed (''Added '' @ address @ '' to lookup table'')]\<rparr>))"

section \<open>Auxiliary notions\<close>

text \<open>
  A token is what \<open>split()\<close> yields: not empty and free of whitespace.
\<close>

definition is_token :: "string \<Rightarrow> bool" where
  "is_token t = (t \<noteq> [] \<and> list_all (\<lambda>c. \<not> py_isspace c) t)"

definition canonical_types :: "string list" where
  "canonical_types = map fst STREET_TYPES"

definition canonical_of :: "string \<Rightarrow> string" where
  "canonical_of t = (case TYPE_TO_CANONICAL t of Some c \<Rightarrow> c | None \<Rightarrow> t)"

text \<open>
  The three stages of \<open>parse_address\<close> after the trim: cutting off the unit, taking the
  street number from the front of the token list and the street type from its end.
  \<open>render\<close> is the last line of \<open>normalize_address\<close> on the three components, the name
  kept as its list of tokens. \<open>good\<close> is what the components of a parsed token list satisfy.
\<close>

definition split_number :: "string list \<Rightarrow> string \<times> string list" where
  "split_number parts =
     (if parts \<noteq> [] \<and> is_street_number (hd parts) then (hd parts, tl parts) else ([], parts))"

definition split_type :: "string list \<Rightarrow> string \<times> string list" where
  "split_type parts =
     (if parts \<noteq> [] \<and> py_upper (last parts) \<in> dom TYPE_TO_CANONICAL
      then (last parts, butlast parts) else ([], parts))"

definition assemble :: "string list \<Rightarrow> string \<times> string list \<times> string" where
  "assemble parts =
     (let (n, parts1) = split_number parts; (t, parts2) = split_type parts1
      in (n, parts2, t))"

definition strip_unit :: "string \<Rightarrow> string" where
  "strip_unit a =
     (let addr = py_strip a
      in case unit_search addr of None \<Rightarrow> addr | Some (start, grp) \<Rightarrow> py_strip (take start addr))"

definition render :: "string \<times> string list \<times> string \<Rightarrow> string" where
  "render = (\<lambda>(n, ns, t).
     py_strip (n @ '' '' @ py_upper (py_join ns) @ '' '' @ canonical_of (py_upper t)))"

definition optl :: "string \<Rightarrow> string list" where
  "optl s = (if s = [] then [] else [s])"

definition good :: "string \<times> string list \<times> string \<Rightarrow> bool" where
  "good = (\<lambda>(n, ns, t).
     list_all is_token ns \<and>
     (n = [] \<or> is_token n \<and> is_street_number n) \<and>
     (t = [] \<or> is_token t \<and> py_upper t \<in> dom TYPE_TO_CANONICAL) \<and>
     (n = [] \<longrightarrow> (case ns @ optl t of [] \<Rightarrow> True | p # _ \<Rightarrow> \<not> is_street_number p)) \<and>
     (t = [] \<longrightarrow> ns = [] \<or> py_upper (last ns) \<notin> dom TYPE_TO_CANONICAL))"

section \<open>Splitting, joining and trimming\<close>

lemma split_from_nospace:
  "list_all (\<lambda>c. \<not> py_isspace c) t \<Longrightarrow>
   split_from cur t = (if cur @ t = [] then [] else [cur @ t])"
  by (induction t arbitrary: cur) auto

lemma split_from_space:
  "py_isspace c \<Longrightarrow> split_from cur (a @ c # b) = split_from cur a @ split_from [] b"
  by (induction a arbitrary: cur) auto

lemma split_from_dropWhile:
  "split_from [] (dropWhile py_isspace s) = split_from [] s"
  by (induction s) auto

lemma split_from_rev_dropWhile:
  "split_from cur (rev (dropWhile py_isspace r)) = split_from cur (rev r)"
proof (induction r)
  case Nil
  then show ?case by simp
next
  case (Cons c r)
  show ?case
  proof (cases "py_isspace c")
    case True
    have "split_from cur (rev r @ c # []) = split_from cur (rev r) @ split_from [] []"
      using True by (rule split_from_space)
    with True Cons show ?thesis by simp
  next
    case False
    then show ?thesis by simp
  qed
qed

lemma py_split_strip: "py_split (py_strip s) = py_split s"
  by (simp add: py_split_def py_strip_def split_from_rev_dropWhile split_from_dropWhile)

lemma py_split_token: "is_token t \<Longrightarrow> py_split t = [t]"
  by (simp add: py_split_def is_token_def split_from_nospace)

lemma py_split_space_append:
  "py_split (a @ CHR '' '' # b) = py_split a @ py_split b"
  unfolding py_split_def by (rule split_from_space) (simp add: py_isspace_def)

lemma py_split_join: "list_all is_token ts \<Longrightarrow> py_split (py_join ts) = ts"
proof (induction ts rule: py_join.induct)
  case 1
  then show ?case by (simp add: py_split_def)
next
  case (2 p)
  then show ?case by (simp add: py_split_token)
next
  case (3 p q ps)
  then show ?case by (simp add: py_split_space_append py_split_token)
qed

lemma split_from_tokens:
  "list_all (\<lambda>c. \<not> py_isspace c) cur \<Longrightarrow> list_all is_token (split_from cur s)"
  by (induction s arbitrary: cur) (auto simp: is_token_def)

lemma py_split_tokens: "list_all is_token (py_split s)"
  by (simp add: py_split_def split_from_tokens)

lemma py_strip_Nil [simp]: "py_strip [] = []"
  by (simp add: py_strip_def)

lemma py_split_Nil [simp]: "py_split [] = []"
  by (simp add: py_split_def)


section \<open>Upper case\<close>

lemma to_upper_other: "c \<notin> set ascii_lowercase \<Longrightarrow> to_upper c = c"
proof -
  assume "c \<notin> set ascii_lowercase"
  moreover have "length ascii_lowercase = length ascii_uppercase"
    by (simp add: ascii_lowercase_def ascii_uppercase_def)
  ultimately have "map_of (zip ascii_lowercase ascii_uppercase) c = None"
    by (simp add: map_of_zip_is_None)
  then show ?thesis by (simp add: to_upper_def)
qed

lemma to_upper_letter: "c \<in> set ascii_lowercase \<Longrightarrow> to_upper c \<in> set ascii_uppercase"
  by (auto simp: to_upper_def ascii_lowercase_def ascii_uppercase_def)

lemma upper_not_lower: "u \<in> set ascii_uppercase \<Longrightarrow> u \<notin> set ascii_lowercase"
  by (auto simp: ascii_lowercase_def ascii_uppercase_def)

lemma letter_not_space:
  "c \<in> set ascii_lowercase \<or> c \<in> set ascii_uppercase \<Longrightarrow> \<not> py_isspace c"
  by (auto simp: ascii_lowercase_def ascii_uppercase_def py_isspace_def)

lemma letter_not_digit:
  "c \<in> set ascii_lowercase \<or> c \<in> set ascii_uppercase \<Longrightarrow> \<not> is_digit c"
  by (auto simp: ascii_lowercase_def ascii_uppercase_def is_digit_def ascii_digits_def)

lemma to_upper_idem [simp]: "to_upper (to_upper c) = to_upper c"
  by (cases "c \<in> set ascii_lowercase")
     (simp_all add: to_upper_other to_upper_letter upper_not_lower)

lemma to_upper_space [simp]: "py_isspace (to_upper c) = py_isspace c"
  by (cases "c \<in> set ascii_lowercase")
     (simp_all add: to_upper_other to_upper_letter letter_not_space)

lemma to_upper_digit [simp]: "is_digit (to_upper c) = is_digit c"
  by (cases "c \<in> set ascii_lowercase")
     (simp_all add: to_upper_other to_upper_letter letter_not_digit)

lemma to_upper_alpha [simp]: "is_alpha (to_upper c) = is_alpha c"
  by (cases "c \<in> set ascii_lowercase")
     (simp_all add: to_upper_other to_upper_letter is_alpha_def is_upper_def is_lower_def)

lemma py_upper_idem [simp]: "py_upper (py_upper s) = py_upper s"
  by (simp add: py_upper_def)

lemma py_upper_Nil [simp]: "py_upper [] = []"
  by (simp add: py_upper_def)

lemma py_upper_eq_Nil [simp]: "py_upper s = [] \<longleftrightarrow> s = []"
  by (simp add: py_upper_def)

lemma py_upper_token [simp]: "is_token (py_upper t) = is_token t"
  by (simp add: is_token_def py_upper_def list_all_iff)

lemma to_upper_blank: "to_upper (CHR '' '') = CHR '' ''"
  by (simp add: to_upper_other ascii_lowercase_def)

lemma py_upper_join: "py_upper (py_join ts) = py_join (map py_upper ts)"
proof (induction ts rule: py_join.induct)
  case (3 p q ps)
  then show ?case by (simp add: py_upper_def to_upper_blank)
qed simp_all

lemma is_digit_upper_comp: "is_digit \<circ> to_upper = is_digit"
  by (rule ext) simp

lemma is_street_number_upper [simp]: "is_street_number (py_upper t) = is_street_number t"
proof -
  have d: "dropWhile is_digit (map to_upper t) = map to_upper (dropWhile is_digit t)"
    by (simp add: dropWhile_map is_digit_upper_comp)
  have k: "takeWhile is_digit (map to_upper t) = map to_upper (takeWhile is_digit t)"
    by (simp add: takeWhile_map is_digit_upper_comp)
  have h: "is_alpha (hd (map to_upper r)) = is_alpha (hd r)" if "length r = 1" for r
    using that by (cases r) simp_all
  have g: "py_isdigit (map to_upper t) = py_isdigit t"
    by (simp add: py_isdigit_def list_all_iff)
  show ?thesis
    unfolding is_street_number_def py_upper_def Let_def d k g
    using h [of "dropWhile is_digit t"] by auto
qed

section \<open>The reverse index of street types\<close>

lemma TYPE_TO_CANONICAL_range:
  "TYPE_TO_CANONICAL t = Some c \<Longrightarrow> c \<in> set canonical_types"
  by (simp add: TYPE_TO_CANONICAL_def STREET_TYPES_def canonical_types_def split: if_splits)

lemma canonical_types_fixed:
  "list_all (\<lambda>c. TYPE_TO_CANONICAL c = Some c \<and> py_upper c = c \<and> is_token c \<and>
                  \<not> is_street_number c) canonical_types"
  by code_simp

lemma TYPE_TO_CANONICAL_fixed:
  assumes "TYPE_TO_CANONICAL t = Some c"
  shows "TYPE_TO_CANONICAL c = Some c" and "py_upper c = c" and "is_token c"
    and "\<not> is_street_number c"
  using TYPE_TO_CANONICAL_range [OF assms] canonical_types_fixed
  by (auto simp: list_all_iff)

lemma TYPE_TO_CANONICAL_Nil [simp]: "TYPE_TO_CANONICAL [] = None"
  by (simp add: TYPE_TO_CANONICAL_def STREET_TYPES_def)

section \<open>The stages of the parser\<close>

lemma normalize_address_render:
  "a \<noteq> [] \<Longrightarrow> normalize_address a = render (assemble (py_split (strip_unit a)))"
  unfolding normalize_address_def parse_address_def render_def assemble_def split_number_def
    split_type_def strip_unit_def canonical_of_def Let_def
  by (auto split: option.splits)

lemma is_token_nonempty: "is_token t \<Longrightarrow> t \<noteq> []"
  by (simp add: is_token_def)

lemma split_type_good:
  assumes "list_all is_token ps" and "split_type ps = (t, ns)"
  shows "list_all is_token ns" and "t = [] \<or> is_token t \<and> py_upper t \<in> dom TYPE_TO_CANONICAL"
    and "t = [] \<longrightarrow> ns = [] \<or> py_upper (last ns) \<notin> dom TYPE_TO_CANONICAL"
    and "ns @ optl t = ps"
proof -
  show "list_all is_token ns"
    using assms by (auto simp: split_type_def list_all_iff split: if_splits dest: in_set_butlastD)
  show "t = [] \<or> is_token t \<and> py_upper t \<in> dom TYPE_TO_CANONICAL"
    using assms by (auto simp: split_type_def list_all_iff split: if_splits)
  show "t = [] \<longrightarrow> ns = [] \<or> py_upper (last ns) \<notin> dom TYPE_TO_CANONICAL"
    using assms by (auto simp: split_type_def list_all_iff is_token_def split: if_splits)
  show "ns @ optl t = ps"
    using assms by (auto simp: split_type_def optl_def list_all_iff is_token_def split: if_splits)
qed

lemma split_number_good:
  assumes "list_all is_token ps" and "split_number ps = (n, ps1)"
  shows "list_all is_token ps1" and "n = [] \<or> is_token n \<and> is_street_number n"
    and "n = [] \<longrightarrow> (case ps1 of [] \<Rightarrow> True | p # _ \<Rightarrow> \<not> is_street_number p)"
proof -
  show "list_all is_token ps1"
    using assms by (cases ps) (auto simp: split_number_def split: if_splits)
  show "n = [] \<or> is_token n \<and> is_street_number n"
    using assms by (cases ps) (auto simp: split_number_def split: if_splits)
  show "n = [] \<longrightarrow> (case ps1 of [] \<Rightarrow> True | p # _ \<Rightarrow> \<not> is_street_number p)"
    using assms by (cases ps) (auto simp: split_number_def is_token_def split: if_splits)
qed

lemma assemble_good: "list_all is_token ps \<Longrightarrow> good (assemble ps)"
proof -
  assume tok: "list_all is_token ps"
  obtain n ps1 where n: "split_number ps = (n, ps1)" by (cases "split_number ps")
  obtain t ns where t: "split_type ps1 = (t, ns)" by (cases "split_type ps1")
  note a = split_number_good [OF tok n]
  note b = split_type_good [OF a(1) t]
  have "assemble ps = (n, ns, t)" by (simp add: assemble_def n t)
  moreover have "good (n, ns, t)"
    using a(2,3) b by (simp add: good_def)
  ultimately show ?thesis by simp
qed






lemma py_split_optl: "s = [] \<or> is_token s \<Longrightarrow> py_split s = optl s"
  by (auto simp: optl_def py_split_token)

lemma canonical_of_Nil [simp]: "canonical_of [] = []"
  by (simp add: canonical_of_def)

lemma canonical_of_type:
  "t = [] \<or> is_token t \<and> py_upper t \<in> dom TYPE_TO_CANONICAL \<Longrightarrow>
   canonical_of (py_upper t) = [] \<or> is_token (canonical_of (py_upper t))"
  by (auto simp: canonical_of_def dest: TYPE_TO_CANONICAL_fixed(3))

lemma canonical_of_idem:
  "canonical_of (py_upper (canonical_of (py_upper t))) = canonical_of (py_upper t)"
  by (cases "TYPE_TO_CANONICAL (py_upper t)")
     (simp_all add: canonical_of_def TYPE_TO_CANONICAL_fixed(1,2))

lemma split_render:
  assumes "good (n, ns, t)"
  shows "py_split (render (n, ns, t))
         = optl n @ map py_upper ns @ optl (canonical_of (py_upper t))"
proof -
  have n: "py_split n = optl n"
    using assms by (intro py_split_optl) (auto simp: good_def)
  have t: "py_split (canonical_of (py_upper t)) = optl (canonical_of (py_upper t))"
    using assms by (intro py_split_optl canonical_of_type) (auto simp: good_def)
  have "list_all is_token (map py_upper ns)"
    using assms by (simp add: good_def list_all_iff)
  then have ns: "py_split (py_upper (py_join ns)) = map py_upper ns"
    by (simp add: py_upper_join py_split_join)
  show ?thesis
    by (simp add: render_def py_split_strip py_split_space_append n t ns)
qed

lemma render_canonical:
  "render (n, map py_upper ns, canonical_of (py_upper t)) = render (n, ns, t)"
  by (simp add: render_def py_upper_join canonical_of_idem comp_def)

lemma split_number_canonical:
  assumes "good (n, ns, t)"
  shows "split_number (optl n @ map py_upper ns @ optl (canonical_of (py_upper t)))
         = (n, map py_upper ns @ optl (canonical_of (py_upper t)))"
proof (cases "n = []")
  case False
  with assms show ?thesis by (simp add: good_def optl_def split_number_def)
next
  case True
  show ?thesis
  proof (cases ns)
    case (Cons p ps)
    with True assms show ?thesis by (simp add: good_def optl_def split_number_def)
  next
    case Nil
    show ?thesis
    proof (cases "t = []")
      case True
      with \<open>n = []\<close> Nil show ?thesis by (simp add: optl_def split_number_def)
    next
      case False
      with \<open>n = []\<close> Nil assms obtain c where c: "TYPE_TO_CANONICAL (py_upper t) = Some c"
        by (auto simp: good_def)
      from TYPE_TO_CANONICAL_fixed(3,4) [OF c] c \<open>n = []\<close> Nil show ?thesis
        by (simp add: optl_def split_number_def canonical_of_def is_token_def)
    qed
  qed
qed

lemma split_type_canonical:
  assumes "good (n, ns, t)"
  shows "split_type (map py_upper ns @ optl (canonical_of (py_upper t)))
         = (canonical_of (py_upper t), map py_upper ns)"
proof (cases "t = []")
  case True
  with assms show ?thesis
    by (cases "ns = []") (auto simp: good_def optl_def split_type_def last_map)
next
  case False
  with assms obtain c where c: "TYPE_TO_CANONICAL (py_upper t) = Some c"
    by (auto simp: good_def)
  from TYPE_TO_CANONICAL_fixed(1,2,3) [OF c] c show ?thesis
    by (auto simp: optl_def split_type_def canonical_of_def is_token_def)
qed

lemma assemble_canonical:
  "good (n, ns, t) \<Longrightarrow>
   assemble (optl n @ map py_upper ns @ optl (canonical_of (py_upper t)))
   = (n, map py_upper ns, canonical_of (py_upper t))"
  by (simp add: assemble_def split_number_canonical split_type_canonical)

lemma render_assemble_fixed:
  assumes "list_all is_token ps"
  shows "render (assemble (py_split (render (assemble ps)))) = render (assemble ps)"
proof -
  obtain n ns t where a: "assemble ps = (n, ns, t)" by (cases "assemble ps")
  with assemble_good [OF assms] have g: "good (n, ns, t)" by simp
  show ?thesis
    by (simp add: a split_render [OF g] assemble_canonical [OF g] render_canonical)
qed

lemma unit_match_here_nonempty: "unit_match_here s = Some g \<Longrightarrow> g \<noteq> []"
  by (auto simp: unit_match_here_def Let_def split: option.splits if_splits)

lemma unit_search_from_nonempty: "unit_search_from i s = Some (j, g) \<Longrightarrow> g \<noteq> []"
  by (induction s arbitrary: i) (auto split: option.splits dest: unit_match_here_nonempty)

lemma parse_address_unit:
  "a \<noteq> [] \<Longrightarrow> unit (parse_address a)
     = (case unit_search (py_strip a) of None \<Rightarrow> [] | Some (start, grp) \<Rightarrow> grp)"
  by (auto simp: parse_address_def Let_def split: option.splits)

lemma no_unit_strip_unit:
  assumes "a \<noteq> []" and "unit (parse_address a) = []"
  shows "strip_unit a = py_strip a"
proof (cases "unit_search (py_strip a)")
  case None
  then show ?thesis by (simp add: strip_unit_def)
next
  case (Some m)
  obtain j g where m: "m = (j, g)" by (cases m)
  with Some assms have "g = []" by (simp add: parse_address_unit)
  moreover from Some m have "g \<noteq> []"
    by (auto simp: unit_search_def dest: unit_search_from_nonempty)
  ultimately show ?thesis by simp
qed

section \<open>The address parser\<close>


section \<open>The lookup resolver\<close>

lemma find_filter_hd:
  "filter P xs \<noteq> [] \<Longrightarrow> find P xs = Some (hd (filter P xs))"
  by (induction xs) auto

lemma find_filter_none:
  "filter P xs = [] \<Longrightarrow> find P xs = None"
  by (induction xs) (auto split: if_splits)

lemma geocode_from_lookup_find:
  assumes "normalize_address_for_lookup address = Some q" and "q \<noteq> []"
  shows "fst (geocode_from_lookup address w) =
         (case find (\<lambda>row. original_address row = q) (lookup_file w) of
            None \<Rightarrow> None
          | Some row \<Rightarrow> Some \<lparr>r_latitude = latitude row, r_longitude = longitude row,
                               r_apn = (if APN row \<noteq> [] then Some (APN row) else None),
                               r_original_address = original_address row,
                               r_normalized_input = q\<rparr>)"
proof (cases "filter (\<lambda>row. original_address row = q) (lookup_file w) = []")
  case True
  with assms show ?thesis
    by (simp add: geocode_from_lookup_def find_filter_none Let_def)
next
  case False
  with assms show ?thesis
    by (simp add: geocode_from_lookup_def find_filter_hd Let_def)
qed

lemma shattuck_query:
  "normalize_address_for_lookup ''2700 Shattuck Ave'' = Some ''2700 SHATTUCK Av''"
  by code_simp

lemma take3_nth:
  "3 \<le> length ps \<Longrightarrow> take 3 ps = [ps ! 0, ps ! Suc 0, ps ! 2]"
proof -
  assume "3 \<le> length ps"
  then obtain a b c r where "ps = a # b # c # r"
    by (cases ps; cases "tl ps"; cases "tl (tl ps)") auto
  then show ?thesis by (simp add: numeral_3_eq_3)
qed

text \<open>
  C1, as stated, fails: the name conversion upper-cases \<open>"Shattuck"\<close>, so the query for
  \<open>"2700 Shattuck Ave"\<close> is \<open>"2700 SHATTUCK Av"\<close> and a table whose only row is
  \<open>"2700 Shattuck Av"\<close> gives no match.
\<close>

theorem lookup_shattuck_no_match:
  "normalize_street_name ''Shattuck'' \<noteq> ''Shattuck'' \<and>
   fst (geocode_from_lookup ''2700 Shattuck Ave''
          \<lparr>lookup_file = [\<lparr>original_address = ''2700 Shattuck Av'', latitude = 37.86,
                            longitude = -122.27, APN = ''55-1822-1''\<rparr>],
           io_trace = []\<rparr>) = None"
  by code_simp

text \<open>
  C1, amended. A name that is not one of the twelve ordinal words is returned
  upper-cased and trimmed, not unchanged. Resolving \<open>"2700 Shattuck Ave"\<close> returns the
  first row of the table whose address is exactly \<open>"2700 SHATTUCK Av"\<close>, and no match
  when there is none.
\<close>

theorem lookup_name_uppercased:
  "(map_of word_to_num (py_strip (py_upper name)) = None \<longrightarrow>
      normalize_street_name name = py_strip (py_upper name)) \<and>
   fst (geocode_from_lookup ''2700 Shattuck Ave'' w) =
     (case find (\<lambda>row. original_address row = ''2700 SHATTUCK Av'') (lookup_file w) of
        None \<Rightarrow> None
      | Some row \<Rightarrow> Some \<lparr>r_latitude = latitude row, r_longitude = longitude row,
                           r_apn = (if APN row \<noteq> [] then Some (APN row) else None),
                           r_original_address = original_address row,
                           r_normalized_input = ''2700 SHATTUCK Av''\<rparr>)"
  using geocode_from_lookup_find [OF shattuck_query, of w]
  by (simp add: normalize_street_name_def)

theorem lookup_name_uppercased_witness:
  "map_of word_to_num (py_strip (py_upper ''Shattuck'')) = None \<and>
   normalize_street_name ''Shattuck'' = ''SHATTUCK'' \<and>
   fst (geocode_from_lookup ''2700 Shattuck Ave''
          \<lparr>lookup_file = [\<lparr>original_address = ''2700 SHATTUCK Av'', latitude = 37.86,
                            longitude = -122.27, APN = ''55-1822-1''\<rparr>],
           io_trace = []\<rparr>)
     = Some \<lparr>r_latitude = 37.86, r_longitude = -122.27, r_apn = Some ''55-1822-1'',
             r_original_address = ''2700 SHATTUCK Av'',
             r_normalized_input = ''2700 SHATTUCK Av''\<rparr>"
proof -
  have h: "map_of word_to_num (py_strip (py_upper ''Shattuck'')) = None"
    by code_simp
  have u: "py_strip (py_upper ''Shattuck'') = ''SHATTUCK''"
    by code_simp
  from lookup_name_uppercased [of "''Shattuck''"
         "\<lparr>lookup_file = [\<lparr>original_address = ''2700 SHATTUCK Av'', latitude = 37.86,
                            longitude = -122.27, APN = ''55-1822-1''\<rparr>],
           io_trace = []\<rparr>"] h u
  show ?thesis by simp
qed

text \<open>
  C2, as stated, fails: \<open>"123 Multi Word Lane"\<close> has four tokens and is resolved
  against a table that holds the row \<open>"123 MULTI Word"\<close>.
\<close>

theorem lookup_four_tokens_match:
  "length (py_split (py_strip ''123 Multi Word Lane'')) = 4 \<and>
   fst (geocode_from_lookup ''123 Multi Word Lane''
          \<lparr>lookup_file = [\<lparr>original_address = ''123 MULTI Word'', latitude = 37.86,
                            longitude = -122.27, APN = []\<rparr>],
           io_trace = []\<rparr>)
     = Some \<lparr>r_latitude = 37.86, r_longitude = -122.27, r_apn = None,
             r_original_address = ''123 MULTI Word'',
             r_normalized_input = ''123 MULTI Word''\<rparr>"
  by code_simp

text \<open>
  C2, amended. An input with fewer than three tokens gives no match and leaves the
  state as it is: the table is not read. An input with three or more tokens is not
  refused: its query is the one of its first three tokens alone, a query is built, and
  the table is read once.
\<close>

theorem lookup_token_count:
  "(length (py_split (py_strip address)) < 3 \<longrightarrow> geocode_from_lookup address w = (None, w)) \<and>
   (3 \<le> length (py_split (py_strip address)) \<longrightarrow>
      normalize_address_for_lookup address
        = normalize_address_for_lookup (py_join (take 3 (py_split (py_strip address)))) \<and>
      normalize_address_for_lookup address \<noteq> None \<and>
      io_trace (snd (geocode_from_lookup address w)) = io_trace w @ [ReadCsv])"
proof (intro conjI impI)
  assume "length (py_split (py_strip address)) < 3"
  then show "geocode_from_lookup address w = (None, w)"
    by (simp add: geocode_from_lookup_def normalize_address_for_lookup_def)
next
  assume len: "3 \<le> length (py_split (py_strip address))"
  let ?ps = "py_split (py_strip address)"
  have "list_all is_token (take 3 ?ps)"
    using py_split_tokens [of "py_strip address"] by (auto simp: list_all_iff dest: in_set_takeD)
  then have s: "py_split (py_strip (py_join (take 3 ?ps))) = take 3 ?ps"
    by (simp add: py_split_strip py_split_join)
  have t: "take 3 ?ps = [?ps ! 0, ?ps ! Suc 0, ?ps ! 2]"
    using len by (rule take3_nth)
  show "normalize_address_for_lookup address
        = normalize_address_for_lookup (py_join (take 3 ?ps))"
    using len unfolding normalize_address_for_lookup_def [of "py_join (take 3 ?ps)"] s
    unfolding t by (simp add: normalize_address_for_lookup_def Let_def)
  show "normalize_address_for_lookup address \<noteq> None"
    using len by (simp add: normalize_address_for_lookup_def Let_def)
  show "io_trace (snd (geocode_from_lookup address w)) = io_trace w @ [ReadCsv]"
    using len by (simp add: geocode_from_lookup_def normalize_address_for_lookup_def Let_def)
qed

theorem lookup_token_count_witness:
  "length (py_split (py_strip ''123 Main'')) < 3 \<and>
   geocode_from_lookup ''123 Main'' \<lparr>lookup_file = [], io_trace = []\<rparr>
     = (None, \<lparr>lookup_file = [], io_trace = []\<rparr>) \<and>
   3 \<le> length (py_split (py_strip ''123 Multi Word Lane'')) \<and>
   normalize_address_for_lookup ''123 Multi Word Lane''
     = normalize_address_for_lookup ''123 Multi Word'' \<and>
   io_trace (snd (geocode_from_lookup ''123 Multi Word Lane'' \<lparr>lookup_file = [], io_trace = []\<rparr>))
     = [ReadCsv]"
proof -
  have a: "length (py_split (py_strip ''123 Main'')) < 3"
    by code_simp
  have b: "3 \<le> length (py_split (py_strip ''123 Multi Word Lane''))"
    by code_simp
  have c: "py_join (take 3 (py_split (py_strip ''123 Multi Word Lane''))) = ''123 Multi Word''"
    by code_simp
  from lookup_token_count [of "''123 Main''" "\<lparr>lookup_file = [], io_trace = []\<rparr>"]
       lookup_token_count [of "''123 Multi Word Lane''" "\<lparr>lookup_file = [], io_trace = []\<rparr>"]
       a b c
  show ?thesis by simp
qed

section \<open>The variation generator\<close>

text \<open>
  C5. The set returned by \<open>generate_address_variations("1914", "FIFTH", "ST")\<close> holds
  both \<open>"1914 5TH ST"\<close> (the ordinal word replaced by its numeral) and
  \<open>"1914 Fifth St"\<close> (title case of name and type).
\<close>

theorem generate_variations_fifth_st:
  "''1914 5TH ST'' \<in> generate_address_variations ''1914'' ''FIFTH'' ''ST'' \<and>
   ''1914 Fifth St'' \<in> generate_address_variations ''1914'' ''FIFTH'' ''ST''"
  by code_simp

section \<open>The canonical normalizer\<close>


text \<open>
  C3, as stated, fails: of two trailing units only the last is cut off, so the normal
  form of \<open>"1 A #2 #3"\<close> still ends in a unit, which a second pass removes.
\<close>

theorem normalize_not_idempotent:
  "normalize_address ''1 A #2 #3'' = ''1 A #2'' \<and>
   normalize_address (normalize_address ''1 A #2 #3'') = ''1 A'' \<and>
   normalize_address (normalize_address ''1 A #2 #3'') \<noteq> normalize_address ''1 A #2 #3''"
  by code_simp

text \<open>
  C3, amended. \<open>normalize_address\<close> is idempotent on every input whose normal form
  holds no further unit, that is when parsing \<open>normalize_address x\<close> extracts no unit.
\<close>

theorem normalize_idempotent_without_unit:
  assumes "unit (parse_address (normalize_address x)) = []"
  shows "normalize_address (normalize_address x) = normalize_address x"
proof (cases "x = [] \<or> normalize_address x = []")
  case True
  then show ?thesis by (auto simp: normalize_address_def)
next
  case False
  then have x: "x \<noteq> []" and y: "normalize_address x \<noteq> []" by simp_all
  let ?ps = "py_split (strip_unit x)"
  have r: "normalize_address x = render (assemble ?ps)"
    using x by (rule normalize_address_render)
  have "strip_unit (normalize_address x) = py_strip (normalize_address x)"
    using y assms by (rule no_unit_strip_unit)
  then have "normalize_address (normalize_address x)
             = render (assemble (py_split (normalize_address x)))"
    by (simp add: normalize_address_render [OF y] py_split_strip)
  also have "\<dots> = render (assemble ?ps)"
    unfolding r by (rule render_assemble_fixed) (rule py_split_tokens)
  finally show ?thesis by (simp add: r)
qed

theorem normalize_idempotent_without_unit_witness:
  "unit (parse_address (normalize_address ''2700 Shattuck Avenue #101'')) = [] \<and>
   normalize_address ''2700 Shattuck Avenue #101'' = ''2700 SHATTUCK AV'' \<and>
   normalize_address (normalize_address ''2700 Shattuck Avenue #101'')
     = normalize_address ''2700 Shattuck Avenue #101''"
proof -
  have h: "unit (parse_address (normalize_address ''2700 Shattuck Avenue #101'')) = []"
    by code_simp
  have v: "normalize_address ''2700 Shattuck Avenue #101'' = ''2700 SHATTUCK AV''"
    by code_simp
  from normalize_idempotent_without_unit [OF h] h v show ?thesis by simp
qed

text \<open>
  C4. The result is only trimmed at its two ends. With a street number and a street
  type but no street name, the two separators of the format stand side by side:
  \<open>"123 Park"\<close> gives \<open>"123  PK"\<close>, where \<open>standardize_address\<close>, which joins the
  non-empty components, gives \<open>"123 PK"\<close>.
\<close>

theorem normalize_double_space:
  "normalize_address ''123 Park'' = ''123  PK'' \<and>
   standardize_address ''123 Park'' True = ''123 PK''"
  by code_simp

section \<open>The bounds validator and the manual entry\<close>

text \<open>
  C9. For the city \<open>"Berkeley"\<close>, \<open>validate_coordinates\<close> holds exactly when the
  latitude lies in the closed interval from 37.84 to 37.91 and the longitude in the
  closed interval from -122.32 to -122.23. It accepts (37.87, -122.27) and the two
  corners of the box, and rejects (40.0, -122.27).
\<close>

theorem validate_berkeley_box:
  "(validate_coordinates lat lon ''Berkeley'' \<longleftrightarrow>
      37.84 \<le> lat \<and> lat \<le> 37.91 \<and> -122.32 \<le> lon \<and> lon \<le> -122.23) \<and>
   validate_coordinates 37.87 (-122.27) ''Berkeley'' \<and>
   \<not> validate_coordinates 40.0 (-122.27) ''Berkeley'' \<and>
   validate_coordinates 37.84 (-122.32) ''Berkeley'' \<and>
   validate_coordinates 37.91 (-122.23) ''Berkeley''"
  by (simp add: validate_coordinates_def BERKELEY_BOUNDS_def)

text \<open>
  C10. For every city name other than exactly \<open>"Berkeley"\<close>, \<open>validate_coordinates\<close>
  is false whatever the coordinates are; the witness is \<open>"berkeley"\<close> with a point
  inside the box.
\<close>

theorem validate_other_city:
  "city \<noteq> ''Berkeley'' \<Longrightarrow> \<not> validate_coordinates lat lon city"
  by (simp add: validate_coordinates_def)

theorem validate_other_city_witness:
  "''berkeley'' \<noteq> ''Berkeley'' \<and> \<not> validate_coordinates 37.87 (-122.27) ''berkeley''"
  using validate_other_city [of "''berkeley''" "37.87" "-122.27"] by simp

text \<open>
  C6. When the bounds check rejects the coordinates, \<open>add_manual_geocode\<close> returns
  \<open>False\<close>, the rows of the lookup file are the same as before (hence as many), and
  the only effect is the printed warning: the file is neither read nor written.
\<close>

theorem add_manual_rejected:
  assumes "\<not> validate_coordinates lat lon ''Berkeley''"
  shows "fst (add_manual_geocode address lat lon apn w) = False \<and>
         lookup_file (snd (add_manual_geocode address lat lon apn w)) = lookup_file w \<and>
         length (lookup_file (snd (add_manual_geocode address lat lon apn w)))
           = length (lookup_file w) \<and>
         io_trace (snd (add_manual_geocode address lat lon apn w))
           = io_trace w @ [Printed ''WARNING: Coordinates outside Berkeley bounds'']"
  using assms by (simp add: add_manual_geocode_def)

theorem add_manual_rejected_witness:
  "\<not> validate_coordinates 40.0 (-122.27) ''Berkeley'' \<and>
   fst (add_manual_geocode ''2700 Shattuck Ave'' 40.0 (-122.27) None
          \<lparr>lookup_file = [], io_trace = []\<rparr>) = False \<and>
   lookup_file (snd (add_manual_geocode ''2700 Shattuck Ave'' 40.0 (-122.27) None
          \<lparr>lookup_file = [], io_trace = []\<rparr>)) = []"
proof -
  have h: "\<not> validate_coordinates 40.0 (-122.27) ''Berkeley''"
    by (simp add: validate_coordinates_def BERKELEY_BOUNDS_def)
  from add_manual_rejected [OF h, of "''2700 Shattuck Ave''" None
                              "\<lparr>lookup_file = [], io_trace = []\<rparr>"] h
  show ?thesis by simp
qed

end
